theory Spec2Isabelle
  imports Complex_Main
begin

section \<open>An OPC UA to HTTP gateway (app.js)\<close>

text \<open>
  The program connects to an OPC UA server, walks its address space to collect the
  variables (\<open>findVariables\<close>), resolves a type descriptor for each of them
  (\<open>getVariableType\<close>) and serves them over HTTP (\<open>GET /:nodeId\<close>,
  \<open>PUT /:nodeId\<close>). The OPC UA session and the HTTP framework are libraries: the
  session is a record of the operations the program calls, each returning either the
  exception it throws (\<open>Inl\<close>) or its result (\<open>Inr\<close>).
\<close>

subsection \<open>JavaScript values and the conversions the program calls\<close>

text \<open>
  Request bodies are parsed by \<open>express.json({ strict: false })\<close>, so a raw body is
  any JSON value. \<open>JNum r\<close> is the finite number of value \<open>r\<close> (every finite
  floating-point number is a rational; \<open>JNum 0\<close> is the positive zero), next to the
  negative zero, the two infinities (\<open>JInfinity True\<close> is the negative one) and NaN.
  The conversions between numbers and strings are modelled where they are exact, on
  the integers of magnitude at most \<open>2^53\<close>; a conversion that rounds or prints a
  fraction is \<open>Unmodelled\<close>: it completes normally in JavaScript, with a result this
  model does not determine.
\<close>

datatype jsval =
  JUndefined | JNull | JBool bool | JNum rat | JNegZero | JInfinity bool | JNaN
  | JStr string | JArr "jsval list" | JObj "(string \<times> jsval) list"

text \<open>
  The exceptions: a TypeError of the language, an error that a session call throws,
  and the error of the HTTP framework when a handler sends a response after one was
  sent.
\<close>

datatype exn = TypeError | SessionError string | HeadersSent

datatype 'a completion = Normal 'a | Throw exn | Unmodelled

definition maxExact :: nat where
  "maxExact = 9007199254740992"

text \<open>\<open>Boolean(val)\<close>: every value converts; objects and arrays are true.\<close>

fun js_Boolean :: "jsval \<Rightarrow> bool" where
  "js_Boolean JUndefined = False"
| "js_Boolean JNull = False"
| "js_Boolean (JBool b) = b"
| "js_Boolean (JNum r) = (r \<noteq> 0)"
| "js_Boolean JNegZero = False"
| "js_Boolean (JInfinity negative) = True"
| "js_Boolean JNaN = False"
| "js_Boolean (JStr s) = (s \<noteq> [])"
| "js_Boolean (JArr xs) = True"
| "js_Boolean (JObj ps) = True"

definition digitChar :: "nat \<Rightarrow> char" where
  "digitChar d = ''0123456789'' ! d"

function showNat :: "nat \<Rightarrow> string" where
  "showNat n = (if n < 10 then [digitChar n] else showNat (n div 10) @ [digitChar (n mod 10)])"
  by pat_completeness auto
termination
  by (relation "measure (\<lambda>n. n)") auto

definition showInt :: "int \<Rightarrow> string" where
  "showInt n = (if n < 0 then CHR ''-'' # showNat (nat (- n)) else showNat (nat n))"

text \<open>
  Two partial results of a left-to-right evaluation, joined by a comma. An unmodelled
  part completes normally, so a later exception is still thrown.
\<close>

fun joined :: "string completion \<Rightarrow> string completion \<Rightarrow> string completion" where
  "joined (Throw e) b = Throw e"
| "joined a (Throw e) = Throw e"
| "joined (Normal s) (Normal t) = Normal (s @ '','' @ t)"
| "joined a b = Unmodelled"

text \<open>
  \<open>String(val)\<close>. An array converts through \<open>join\<close>, where \<open>undefined\<close> and \<open>null\<close>
  elements give the empty string. An object parsed from JSON converts through
  \<open>Object.prototype.toString\<close>, unless it has a key \<open>toString\<close> of its own: that value
  is not callable, \<open>valueOf\<close> returns no primitive, and the conversion throws a
  TypeError.
\<close>

fun js_String :: "jsval \<Rightarrow> string completion"
  and js_join :: "jsval list \<Rightarrow> string completion"
where
  "js_String JUndefined = Normal ''undefined''"
| "js_String JNull = Normal ''null''"
| "js_String (JBool b) = Normal (if b then ''true'' else ''false'')"
| "js_String (JNum r) =
     (if of_int \<lfloor>r\<rfloor> = r \<and> \<bar>r\<bar> \<le> of_nat maxExact then Normal (showInt \<lfloor>r\<rfloor>)
      else Unmodelled)"
| "js_String JNegZero = Normal ''0''"
| "js_String (JInfinity negative) = Normal (if negative then ''-Infinity'' else ''Infinity'')"
| "js_String JNaN = Normal ''NaN''"
| "js_String (JStr s) = Normal s"
| "js_String (JArr xs) = js_join xs"
| "js_String (JObj ps) =
     (if ''toString'' \<in> set (map fst ps) then Throw TypeError else Normal ''[object Object]'')"
| "js_join [] = Normal []"
| "js_join [x] = (if x = JUndefined \<or> x = JNull then Normal [] else js_String x)"
| "js_join (x # y # ys) =
     joined (if x = JUndefined \<or> x = JNull then Normal [] else js_String x) (js_join (y # ys))"

definition digitValue :: "char \<Rightarrow> nat option" where
  "digitValue c = map_of (zip ''0123456789'' [0, 1, 2, 3, 4, 5, 6, 7, 8, 9]) c"

text \<open>The value of a string of decimal digits, read left to right.\<close>

fun parseDigits :: "nat \<Rightarrow> string \<Rightarrow> nat option" where
  "parseDigits acc [] = Some acc"
| "parseDigits acc (c # cs) =
     (case digitValue c of None \<Rightarrow> None | Some d \<Rightarrow> parseDigits (10 * acc + d) cs)"

definition isWhiteSpace :: "char \<Rightarrow> bool" where
  "isWhiteSpace c = (c = CHR '' '' \<or> c = CHR 0x09 \<or> c = CHR 0x0A \<or> c = CHR 0x0B
     \<or> c = CHR 0x0C \<or> c = CHR 0x0D)"

definition trim :: "string \<Rightarrow> string" where
  "trim s = rev (dropWhile isWhiteSpace (rev (dropWhile isWhiteSpace s)))"

text \<open>
  The conversion of a string to a number. Modelled: the empty string (after trimming
  white space) is 0; an optionally signed string of decimal digits is its value, when
  that is at most \<open>2^53\<close> (and \<open>-0\<close> is the negative zero); an optionally signed
  \<open>Infinity\<close>; a string that starts with none of a digit, a sign, a dot or \<open>I\<close> is no
  numeric literal and gives NaN. Everything else (fractions, exponents, hexadecimal,
  longer integers, non-ASCII white space) is \<open>Unmodelled\<close>.
\<close>

definition js_StringToNumber :: "string \<Rightarrow> jsval completion" where
  "js_StringToNumber s =
     (let t = trim s;
          neg = (t \<noteq> [] \<and> hd t = CHR ''-'');
          ds = (if t \<noteq> [] \<and> (hd t = CHR ''-'' \<or> hd t = CHR ''+'') then tl t else t)
      in if \<not> list_all (\<lambda>c. (of_char c :: nat) < 128) s then Unmodelled
         else if t = [] then Normal (JNum 0)
         else if ds = ''Infinity'' then Normal (JInfinity neg)
         else if ds = [] then Unmodelled
         else (case parseDigits 0 ds of
                 Some n \<Rightarrow>
                   if maxExact < n then Unmodelled
                   else if neg \<and> n = 0 then Normal JNegZero
                   else Normal (JNum (if neg then - of_nat n else of_nat n))
               | None \<Rightarrow>
                   if digitValue (hd t) \<noteq> None \<or> hd t = CHR ''-'' \<or> hd t = CHR ''+''
                      \<or> hd t = CHR ''.'' \<or> hd t = CHR ''I''
                   then Unmodelled else Normal JNaN))"

text \<open>
  \<open>Number(val)\<close>. An array converts through its \<open>join\<close> string; an object parsed from
  JSON gives NaN, unless it has a key \<open>toString\<close> of its own (TypeError, as above).
\<close>

fun js_Number :: "jsval \<Rightarrow> jsval completion" where
  "js_Number JUndefined = Normal JNaN"
| "js_Number JNull = Normal (JNum 0)"
| "js_Number (JBool b) = Normal (JNum (if b then 1 else 0))"
| "js_Number (JNum r) = Normal (JNum r)"
| "js_Number JNegZero = Normal JNegZero"
| "js_Number (JInfinity negative) = Normal (JInfinity negative)"
| "js_Number JNaN = Normal JNaN"
| "js_Number (JStr s) = js_StringToNumber s"
| "js_Number (JArr xs) =
     (case js_join xs of
        Normal s \<Rightarrow> js_StringToNumber s
      | Throw e \<Rightarrow> Throw e
      | Unmodelled \<Rightarrow> Unmodelled)"
| "js_Number (JObj ps) =
     (if ''toString'' \<in> set (map fst ps) then Throw TypeError else Normal JNaN)"

subsection \<open>The session\<close>

text \<open>
  Node ids are handled through their string form: \<open>findVariables\<close> collects
  \<open>childNode.nodeId.toString()\<close>, and \<open>main\<close> passes strings to every session call.
  \<open>NodeClass\<close> and \<open>DataType\<close> are the enumerations of the OPC UA library
  (\<open>EnumNodeClass\<close>, \<open>DataType\<close>): the node classes and the built-in types of the
  protocol, whose members are pairwise different values. (\<open>DataTypeNode\<close> is the node
  class that the library calls \<open>DataType\<close>.)
\<close>

datatype NodeClass =
  Unspecified | Object | Variable | Method | ObjectType | VariableType
  | ReferenceType | DataTypeNode | View

datatype DataType =
  Null | Boolean | SByte | Byte | Int16 | UInt16 | Int32 | UInt32 | Int64 | UInt64
  | Float | Double | String | DateTime | Guid | ByteString | XmlElement | NodeId
  | ExpandedNodeId | StatusCode | QualifiedName | LocalizedText | ExtensionObject
  | DataValue | Variant | DiagnosticInfo

record reference =
  nodeId :: string
  nodeClass :: NodeClass

text \<open>
  The argument of \<open>session.write\<close>,
  \<open>{ nodeId, attributeId, value: { value: { dataType, value } } }\<close>, and its result,
  of which the program reads \<open>status.value\<close> and \<open>status.description\<close>. The value
  written is the result of a coercion that returned: \<open>Normal v\<close>, or \<open>Unmodelled\<close>
  where the coercion rounds or prints a fraction, so that the write is made with a
  value this model does not determine.
\<close>

record write_request =
  w_nodeId :: string
  w_attributeId :: nat
  w_dataType :: string
  w_value :: "jsval completion"

definition AttributeIds_Value :: nat where
  "AttributeIds_Value = 13"

record status =
  st_value :: nat
  st_description :: string

text \<open>
  The operations of the session that the program calls. \<open>browse\<close> gives
  \<open>node.references\<close>; \<open>readVariableValue\<close> gives \<open>val.value.value\<close>. A fixed
  record is a fixed snapshot of the server. (\<open>session_write\<close> is \<open>session.write\<close>.)
\<close>

record session =
  browse :: "string \<Rightarrow> exn + reference list"
  getBuiltInDataType :: "string \<Rightarrow> exn + DataType"
  readVariableValue :: "string \<Rightarrow> exn + jsval"
  session_write :: "write_request \<Rightarrow> exn + status"

subsection \<open>Discovery: findVariables\<close>

text \<open>
  \<open>childVariables.forEach(id => { if (!variables.includes(id)) variables.push(id) })\<close>
\<close>

fun pushNew :: "string list \<Rightarrow> string list \<Rightarrow> string list" where
  "pushNew variables [] = variables"
| "pushNew variables (i # ids) =
     pushNew (if i \<in> set variables then variables else variables @ [i]) ids"

text \<open>
  The recursion of \<open>findVariables\<close> follows the address space, which may be cyclic, so
  the model takes fuel: the number of nested calls allowed. \<open>None\<close> says that the fuel
  was used up; \<open>Some (Inl e)\<close> that a \<open>browse\<close> threw \<open>e\<close>, which aborts the whole
  walk; \<open>Some (Inr variables)\<close> is the returned list. \<open>findVariables_loop\<close> is the
  \<open>for (let childNode of node.references)\<close> loop, with the list built so far.
\<close>

fun findVariables :: "nat \<Rightarrow> session \<Rightarrow> string \<Rightarrow> (exn + string list) option"
  and findVariables_loop ::
    "nat \<Rightarrow> session \<Rightarrow> reference list \<Rightarrow> string list \<Rightarrow> (exn + string list) option"
where
  "findVariables 0 session rootId = None"
| "findVariables (Suc n) session rootId =
     (case browse session rootId of
        Inl e \<Rightarrow> Some (Inl e)
      | Inr references \<Rightarrow> findVariables_loop n session references [])"
| "findVariables_loop n session [] variables = Some (Inr variables)"
| "findVariables_loop n session (childNode # rest) variables =
     (case (if nodeClass childNode = Object then findVariables n session (nodeId childNode)
            else if nodeClass childNode = Variable then Some (Inr [nodeId childNode])
            else Some (Inr []))
      of None \<Rightarrow> None
       | Some (Inl e) \<Rightarrow> Some (Inl e)
       | Some (Inr childVariables) \<Rightarrow>
           findVariables_loop n session rest (pushNew variables childVariables))"

text \<open>
  The variables that the walk is to find: those reachable from a node through a chain
  of \<open>Object\<close> references that ends in a \<open>Variable\<close> reference.
\<close>

inductive reachableVariable :: "session \<Rightarrow> string \<Rightarrow> string \<Rightarrow> bool"
  for session :: session
where
  direct:
    "browse session node = Inr refs \<Longrightarrow> r \<in> set refs \<Longrightarrow> nodeClass r = Variable
      \<Longrightarrow> reachableVariable session node (nodeId r)"
| nested:
    "browse session node = Inr refs \<Longrightarrow> r \<in> set refs \<Longrightarrow> nodeClass r = Object
      \<Longrightarrow> reachableVariable session (nodeId r) v
      \<Longrightarrow> reachableVariable session node v"

subsection \<open>Type resolution: getVariableType\<close>

record TypeDescriptor =
  name :: string
  coerce :: "jsval \<Rightarrow> jsval completion"

text \<open>
  A \<open>switch\<close> whose arms each assign one variable and \<open>break\<close>, and which has no
  \<open>default\<close>: the arms are tried in the order written, the first one whose label
  equals the scrutinee gives the value, and with no such arm the variable keeps its
  current value. A label that falls through to the next body is an arm with that body.
\<close>

fun js_switch :: "'a \<Rightarrow> ('a \<times> 'b) list \<Rightarrow> 'b \<Rightarrow> 'b" where
  "js_switch x [] current = current"
| "js_switch x ((label, body) # arms) current =
     (if x = label then body else js_switch x arms current)"

definition nameArms :: "(DataType \<times> string) list" where
  "nameArms =
     [(Boolean, ''Boolean''), (Byte, ''Byte''), (Double, ''Double''), (Float, ''Float''),
      (Int16, ''Int16''), (Int32, ''Int32''), (LocalizedText, ''LocalizedText''),
      (SByte, ''SByte''), (String, ''String''), (UInt16, ''Int16''),
      (UInt32, ''UInt32''), (UInt32, ''UInt64'')]"

definition coerceBoolean :: "jsval \<Rightarrow> jsval completion" where
  "coerceBoolean val = Normal (JBool (js_Boolean val))"

definition coerceNumber :: "jsval \<Rightarrow> jsval completion" where
  "coerceNumber val = js_Number val"

definition coerceString :: "jsval \<Rightarrow> jsval completion" where
  "coerceString val =
     (case js_String val of
        Normal s \<Rightarrow> Normal (JStr s)
      | Throw e \<Rightarrow> Throw e
      | Unmodelled \<Rightarrow> Unmodelled)"

definition coerceArms :: "(DataType \<times> (jsval \<Rightarrow> jsval completion)) list" where
  "coerceArms =
     [(Boolean, coerceBoolean),
      (Byte, coerceNumber), (Double, coerceNumber), (Float, coerceNumber),
      (Int16, coerceNumber), (Int32, coerceNumber), (SByte, coerceNumber),
      (UInt16, coerceNumber), (UInt32, coerceNumber), (UInt32, coerceNumber),
      (LocalizedText, coerceString), (String, coerceString)]"

definition getVariableType :: "session \<Rightarrow> string \<Rightarrow> exn + TypeDescriptor" where
  "getVariableType session node =
     (case getBuiltInDataType session node of
        Inl e \<Rightarrow> Inl e
      | Inr dt \<Rightarrow>
          Inr \<lparr>name = js_switch dt nameArms ''String'',
               coerce = js_switch dt coerceArms (\<lambda>val. Normal val)\<rparr>)"

text \<open>The descriptor resolved for a node, if its type query succeeds.\<close>

definition descriptorOf :: "session \<Rightarrow> string \<Rightarrow> TypeDescriptor option" where
  "descriptorOf session node =
     (case getVariableType session node of Inl e \<Rightarrow> None | Inr d \<Rightarrow> Some d)"

subsection \<open>The type index: a JavaScript object used as a dictionary\<close>

text \<open>
  \<open>variableTypes\<close> starts as \<open>{}\<close>, an ordinary object whose prototype is
  \<open>Object.prototype\<close>. Reading \<open>variableTypes[id]\<close> follows the prototype chain, so
  it also finds the members of \<open>Object.prototype\<close>; and the key \<open>__proto__\<close> is an
  accessor there: assigning a descriptor to it replaces the prototype of
  \<open>variableTypes\<close> and adds no key, reading it gives the prototype. \<open>own\<close> holds the
  keys of the object itself, \<open>proto\<close> the descriptor installed as prototype, if any.
\<close>

record jsobject =
  own :: "string \<rightharpoonup> TypeDescriptor"
  proto :: "TypeDescriptor option"

definition emptyObject :: jsobject where
  "emptyObject = \<lparr>own = Map.empty, proto = None\<rparr>"

definition objectPrototypeKeys :: "string list" where
  "objectPrototypeKeys =
     [''constructor'', ''hasOwnProperty'', ''isPrototypeOf'', ''propertyIsEnumerable'',
      ''toLocaleString'', ''toString'', ''valueOf'', ''__proto__'',
      ''__defineGetter__'', ''__defineSetter__'', ''__lookupGetter__'',
      ''__lookupSetter__'']"

text \<open>
  What \<open>variableTypes[id]\<close> evaluates to: \<open>undefined\<close>, a descriptor, the \<open>name\<close>
  string of a descriptor installed as prototype, or another inherited member (a
  function, or \<open>Object.prototype\<close> itself), which is an object without \<open>coerce\<close>.
\<close>

datatype property =
  Undefined | Descriptor TypeDescriptor | InheritedName string | InheritedOther

definition js_get :: "jsobject \<Rightarrow> string \<Rightarrow> property" where
  "js_get obj k =
     (case own obj k of
        Some d \<Rightarrow> Descriptor d
      | None \<Rightarrow>
          (case proto obj of
             Some d \<Rightarrow>
               if k = ''__proto__'' then Descriptor d
               else if k = ''name'' then InheritedName (name d)
               else if k = ''coerce'' then InheritedOther
               else if k \<in> set objectPrototypeKeys then InheritedOther
               else Undefined
           | None \<Rightarrow> if k \<in> set objectPrototypeKeys then InheritedOther else Undefined))"

definition js_set :: "jsobject \<Rightarrow> string \<Rightarrow> TypeDescriptor \<Rightarrow> jsobject" where
  "js_set obj k d =
     (if k = ''__proto__'' \<and> own obj k = None then obj\<lparr>proto := Some d\<rparr>
      else obj\<lparr>own := (own obj)(k \<mapsto> d)\<rparr>)"

fun truthy :: "property \<Rightarrow> bool" where
  "truthy Undefined = False"
| "truthy (Descriptor d) = True"
| "truthy (InheritedName s) = (s \<noteq> [])"
| "truthy InheritedOther = True"

subsection \<open>Startup: main\<close>

text \<open>
  \<open>for (let id of variables) variableTypes[id] = await getVariableType(session, id)\<close>.
  The second component records the ids for which the type was queried, in order; an
  exception of a query ends the loop and \<open>main\<close>.
\<close>

fun resolveTypes ::
    "session \<Rightarrow> string list \<Rightarrow> jsobject \<times> string list \<Rightarrow> exn + jsobject \<times> string list"
where
  "resolveTypes session [] st = Inr st"
| "resolveTypes session (i # ids) (variableTypes, queried) =
     (case getVariableType session i of
        Inl e \<Rightarrow> Inl e
      | Inr d \<Rightarrow> resolveTypes session ids (js_set variableTypes i d, queried @ [i]))"

text \<open>
  What \<open>main\<close> holds once startup is complete: the list \<open>variables\<close>, the object
  \<open>variableTypes\<close>, and the record of the type queries made. \<open>main_startup\<close> is
  \<open>main\<close> up to the point where the HTTP routes are set up; it ends with the exception
  of the walk or of a type query, if one is thrown.
\<close>

record index =
  variables :: "string list"
  variableTypes :: jsobject
  typeQueries :: "string list"

definition main_startup :: "nat \<Rightarrow> session \<Rightarrow> (exn + index) option" where
  "main_startup fuel session =
     (case findVariables fuel session ''RootFolder'' of
        None \<Rightarrow> None
      | Some (Inl e) \<Rightarrow> Some (Inl e)
      | Some (Inr vs) \<Rightarrow>
          (case resolveTypes session vs (emptyObject, []) of
             Inl e \<Rightarrow> Some (Inl e)
           | Inr (vt, qs) \<Rightarrow>
               Some (Inr \<lparr>variables = vs, variableTypes = vt, typeQueries = qs\<rparr>)))"

subsection \<open>The request handlers\<close>

text \<open>
  A response is the call the handler makes on \<open>res\<close>: \<open>res.sendStatus(code)\<close>,
  where the handler passes no body, \<open>res.json(raw)\<close> (status 200) or
  \<open>res.status(code).send(x)\<close>. A handler ends by responding, or with an exception
  that nothing in the handler catches, or with such an exception after it has
  responded. With the outcome comes the list of session calls made.

  Two of the \<open>console.log\<close> lines convert a value to a string in their template, and
  the conversion can throw. In \<open>PUT\<close> it is the first line, which prints the raw body
  before anything else is done. In \<open>GET\<close> it is the line after \<open>res.json(raw)\<close>,
  inside the \<open>try\<close>: its exception is caught, and the \<open>catch\<close> sends a second
  response, which the framework refuses with an error that leaves the handler.
\<close>

datatype payload = ErrorDetail exn | Text string

datatype response = SendStatus nat | Json jsval | StatusSend nat payload

fun statusCode :: "response \<Rightarrow> nat" where
  "statusCode (SendStatus code) = code"
| "statusCode (Json raw) = 200"
| "statusCode (StatusSend code x) = code"

datatype outcome =
  Responded response | Uncaught exn | RespondedThenUncaught response exn

datatype call = ReadCall string | WriteCall write_request

definition get_handler :: "jsobject \<Rightarrow> session \<Rightarrow> string \<Rightarrow> outcome \<times> call list" where
  "get_handler types session ident =
     (if \<not> truthy (js_get types ident) then (Responded (SendStatus 404), [])
      else (case readVariableValue session ident of
              Inr raw \<Rightarrow>
                (case js_String raw of
                   Throw e \<Rightarrow> (RespondedThenUncaught (Json raw) HeadersSent, [ReadCall ident])
                 | _ \<Rightarrow> (Responded (Json raw), [ReadCall ident]))
            | Inl e \<Rightarrow> (Responded (StatusSend 500 (ErrorDetail e)), [ReadCall ident])))"

definition put_handler ::
    "jsobject \<Rightarrow> session \<Rightarrow> string \<Rightarrow> jsval \<Rightarrow> outcome \<times> call list" where
  "put_handler types session ident raw =
     (case js_String raw of
        Throw e \<Rightarrow> (Uncaught e, [])
      | _ \<Rightarrow>
          if \<not> truthy (js_get types ident) then (Responded (SendStatus 404), [])
          else (case js_get types ident of
                  Descriptor type \<Rightarrow>
                    (case coerce type raw of
                       Throw e \<Rightarrow> (Uncaught e, [])
                     | coerced \<Rightarrow>
                         (let request =
                            \<lparr>w_nodeId = ident, w_attributeId = AttributeIds_Value,
                             w_dataType = name type, w_value = coerced\<rparr>
                          in case session_write session request of
                               Inl e \<Rightarrow> (Uncaught e, [WriteCall request])
                             | Inr status \<Rightarrow>
                                 if st_value status = 0
                                 then (Responded (SendStatus 204), [WriteCall request])
                                 else (Responded
                                         (StatusSend 400 (Text (st_description status))),
                                       [WriteCall request])))
                | _ \<Rightarrow> (Uncaught TypeError, [])))"

subsection \<open>An example server\<close>

text \<open>
  A small address space: the root holds two folders and a method; both folders hold
  the variable \<open>ns=1;i=1\<close>, and each holds more variables of its own.
\<close>

definition exampleBrowse :: "string \<Rightarrow> exn + reference list" where
  "exampleBrowse node =
     (if node = ''RootFolder'' then
        Inr [\<lparr>nodeId = ''ns=1;s=A'', nodeClass = Object\<rparr>,
             \<lparr>nodeId = ''ns=1;s=B'', nodeClass = Object\<rparr>,
             \<lparr>nodeId = ''ns=1;s=Reset'', nodeClass = Method\<rparr>]
      else if node = ''ns=1;s=A'' then
        Inr [\<lparr>nodeId = ''ns=1;i=1'', nodeClass = Variable\<rparr>,
             \<lparr>nodeId = ''ns=1;i=2'', nodeClass = Variable\<rparr>,
             \<lparr>nodeId = ''ns=1;i=4'', nodeClass = Variable\<rparr>]
      else if node = ''ns=1;s=B'' then
        Inr [\<lparr>nodeId = ''ns=1;i=1'', nodeClass = Variable\<rparr>,
             \<lparr>nodeId = ''ns=1;i=3'', nodeClass = Variable\<rparr>,
             \<lparr>nodeId = ''ns=1;i=5'', nodeClass = Variable\<rparr>,
             \<lparr>nodeId = ''ns=1;i=6'', nodeClass = Variable\<rparr>,
             \<lparr>nodeId = ''ns=1;i=7'', nodeClass = Variable\<rparr>]
      else Inr [])"

definition exampleType :: "string \<Rightarrow> exn + DataType" where
  "exampleType node =
     (if node = ''ns=1;i=1'' then Inr Int32
      else if node = ''ns=1;i=2'' then Inr UInt16
      else if node = ''ns=1;i=3'' then Inr UInt32
      else if node = ''ns=1;i=4'' then Inr Boolean
      else if node = ''ns=1;i=5'' then Inr String
      else if node = ''ns=1;i=6'' then Inr LocalizedText
      else if node = ''ns=1;i=7'' then Inr DateTime
      else Inl (SessionError ''BadNodeIdUnknown''))"

definition exampleRead :: "string \<Rightarrow> exn + jsval" where
  "exampleRead node =
     (if node = ''ns=1;i=1'' then Inr (JNum 5)
      else if node = ''ns=1;i=2'' then Inl (SessionError ''BadTimeout'')
      else if node = ''ns=1;i=3'' then Inr (JNum 7)
      else Inl (SessionError ''BadNodeIdUnknown''))"

definition exampleWrite :: "write_request \<Rightarrow> exn + status" where
  "exampleWrite request =
     (if w_nodeId request = ''ns=1;i=1'' \<or> w_nodeId request = ''ns=1;i=4''
      then Inr \<lparr>st_value = 0, st_description = ''Good''\<rparr>
      else if w_nodeId request = ''ns=1;i=2'' then
        Inr \<lparr>st_value = 2155085824, st_description = ''BadTypeMismatch''\<rparr>
      else Inl (SessionError ''BadSessionClosed''))"

definition exampleSession :: session where
  "exampleSession =
     \<lparr>browse = exampleBrowse, getBuiltInDataType = exampleType,
      readVariableValue = exampleRead, session_write = exampleWrite\<rparr>"

text \<open>The indexes that startup builds against the example server.\<close>

definition exampleIndex :: index where
  "exampleIndex =
     (case main_startup (Suc (Suc 0)) exampleSession of
        Some (Inr idx) \<Rightarrow> idx
      | _ \<Rightarrow> \<lparr>variables = [], variableTypes = emptyObject, typeQueries = []\<rparr>)"

section \<open>Properties\<close>

subsection \<open>Discovery\<close>

lemma distinct_pushNew: "distinct acc \<Longrightarrow> distinct (pushNew acc ids)"
  by (induction ids arbitrary: acc) auto

lemma set_pushNew: "set (pushNew acc ids) = set acc \<union> set ids"
  by (induction ids arbitrary: acc) auto

lemma findVariables_loop_distinct:
  "findVariables n session rootId = Some (Inr vs) \<Longrightarrow> distinct vs"
  "findVariables_loop n session refs acc = Some (Inr vs) \<Longrightarrow> distinct acc \<Longrightarrow> distinct vs"
proof (induction n session rootId and n session refs acc arbitrary: vs and vs
    rule: findVariables_findVariables_loop.induct)
  case (1 session rootId)
  then show ?case by simp
next
  case (2 n session rootId)
  then show ?case by (auto split: sum.splits)
next
  case (3 n session acc)
  then show ?case by simp
next
  case (4 n session childNode rest acc)
  then show ?case
    by (auto split: if_splits option.splits sum.splits intro: distinct_pushNew)
qed


text \<open>More fuel does not change a result.\<close>

lemma findVariables_fuel_mono:
  "findVariables n session rootId = Some r \<Longrightarrow> n \<le> m \<Longrightarrow> findVariables m session rootId = Some r"
  "findVariables_loop n session refs acc = Some r \<Longrightarrow> n \<le> m
     \<Longrightarrow> findVariables_loop m session refs acc = Some r"
proof (induction n session rootId and n session refs acc arbitrary: r m and r m
    rule: findVariables_findVariables_loop.induct)
  case (1 session rootId)
  then show ?case by simp
next
  case (2 n session rootId)
  then obtain m' where m: "m = Suc m'" "n \<le> m'" by (cases m) auto
  show ?case
  proof (cases "browse session rootId")
    case (Inl e)
    with 2 m show ?thesis by simp
  next
    case (Inr refs)
    with 2(2) have "findVariables_loop n session refs [] = Some r" by simp
    then have "findVariables_loop m' session refs [] = Some r"
      using 2(1) Inr m(2) by blast
    with Inr m show ?thesis by simp
  qed
next
  case (3 n session acc)
  then show ?case by simp
next
  case (4 n session childNode rest acc)
  let ?sub = "\<lambda>k. if nodeClass childNode = Object
      then findVariables k session (nodeId childNode)
      else if nodeClass childNode = Variable then Some (Inr [nodeId childNode])
      else Some (Inr [])"
  from "4.prems"(1) obtain x where x: "?sub n = Some x"
    by (cases "?sub n") simp_all
  have subm: "?sub m = Some x"
  proof (cases "nodeClass childNode = Object")
    case True
    with x have "findVariables n session (nodeId childNode) = Some x" by simp
    then have "findVariables m session (nodeId childNode) = Some x"
      using "4.IH"(1) True "4.prems"(2) by blast
    with True show ?thesis by simp
  next
    case False
    with x show ?thesis by simp
  qed
  show ?case
  proof (cases x)
    case (Inl e)
    with x "4.prems"(1) have "r = Inl e" by simp
    with subm Inl show ?thesis by simp
  next
    case (Inr cv)
    with x "4.prems"(1)
    have "findVariables_loop n session rest (pushNew acc cv) = Some r" by simp
    then have "findVariables_loop m session rest (pushNew acc cv) = Some r"
      using "4.IH"(2) x Inr "4.prems"(2) by blast
    with subm Inr show ?thesis by simp
  qed
qed

lemma findVariables_browse_cong:
  assumes "\<forall>node. browse s1 node = browse s2 node"
  shows "findVariables n s1 rootId = findVariables n s2 rootId"
    and "findVariables_loop n s1 refs acc = findVariables_loop n s2 refs acc"
  using assms
proof (induction n s1 rootId and n s1 refs acc
    rule: findVariables_findVariables_loop.induct)
  case (1 session rootId)
  then show ?case by simp
next
  case (2 n session rootId)
  then show ?case by (auto split: sum.splits)
next
  case (3 n session acc)
  then show ?case by simp
next
  case (4 n session childNode rest acc)
  then show ?case
    by (auto split: if_splits option.splits sum.splits)
qed

lemma example_walk:
  "findVariables (Suc (Suc 0)) exampleSession ''RootFolder'' =
     Some (Inr [''ns=1;i=1'', ''ns=1;i=2'', ''ns=1;i=4'', ''ns=1;i=3'', ''ns=1;i=5'',
                ''ns=1;i=6'', ''ns=1;i=7''])"
  by (simp add: exampleSession_def exampleBrowse_def)

text \<open>
  What the walk returns is the set of reachable variables: each one is found, and
  nothing else is.
\<close>

lemma findVariables_loop_complete:
  "findVariables_loop n session refs acc = Some (Inr vs) \<Longrightarrow>
     set acc \<subseteq> set vs
     \<and> (\<forall>r \<in> set refs.
          (nodeClass r = Variable \<longrightarrow> nodeId r \<in> set vs)
          \<and> (nodeClass r = Object \<longrightarrow>
               (\<exists>cv. findVariables n session (nodeId r) = Some (Inr cv) \<and> set cv \<subseteq> set vs)))"
proof (induction refs arbitrary: acc)
  case Nil
  then show ?case by simp
next
  case (Cons childNode rest)
  let ?sub = "if nodeClass childNode = Object
      then findVariables n session (nodeId childNode)
      else if nodeClass childNode = Variable then Some (Inr [nodeId childNode])
      else Some (Inr [])"
  from Cons.prems obtain cv where cv: "?sub = Some (Inr cv)"
    and rest: "findVariables_loop n session rest (pushNew acc cv) = Some (Inr vs)"
    by (cases ?sub) (auto split: sum.splits)
  from Cons.IH [OF rest] have sub: "set acc \<subseteq> set vs" "set cv \<subseteq> set vs"
    and ih: "\<forall>r \<in> set rest.
          (nodeClass r = Variable \<longrightarrow> nodeId r \<in> set vs)
          \<and> (nodeClass r = Object \<longrightarrow>
               (\<exists>cv. findVariables n session (nodeId r) = Some (Inr cv) \<and> set cv \<subseteq> set vs))"
    by (simp_all add: set_pushNew)
  have "nodeClass childNode = Variable \<longrightarrow> nodeId childNode \<in> set vs"
    using cv sub(2) by (auto split: if_splits)
  moreover have "nodeClass childNode = Object \<longrightarrow>
      (\<exists>cv. findVariables n session (nodeId childNode) = Some (Inr cv) \<and> set cv \<subseteq> set vs)"
    using cv sub(2) by (auto split: if_splits)
  ultimately show ?case using sub(1) ih by simp
qed

lemma findVariables_complete:
  "reachableVariable session rootId v \<Longrightarrow> findVariables n session rootId = Some (Inr vs)
     \<Longrightarrow> v \<in> set vs"
proof (induction arbitrary: n vs rule: reachableVariable.induct)
  case (direct node refs r)
  from direct.prems obtain n' where "n = Suc n'" by (cases n) simp_all
  with direct have "findVariables_loop n' session refs [] = Some (Inr vs)" by simp
  from findVariables_loop_complete [OF this] direct(2,3) show ?case by blast
next
  case (nested node refs r v)
  from nested.prems obtain n' where "n = Suc n'" by (cases n) simp_all
  with nested have "findVariables_loop n' session refs [] = Some (Inr vs)" by simp
  from findVariables_loop_complete [OF this] nested(2,3)
  obtain cv where "findVariables n' session (nodeId r) = Some (Inr cv)" "set cv \<subseteq> set vs"
    by blast
  with nested.IH show ?case by blast
qed

lemma findVariables_sound:
  "findVariables n session rootId = Some (Inr vs) \<Longrightarrow> v \<in> set vs
     \<Longrightarrow> reachableVariable session rootId v"
  "findVariables_loop n session refs acc = Some (Inr vs) \<Longrightarrow> v \<in> set vs \<Longrightarrow>
     v \<in> set acc
     \<or> (\<exists>r \<in> set refs. nodeClass r = Variable \<and> v = nodeId r)
     \<or> (\<exists>r \<in> set refs. nodeClass r = Object \<and> reachableVariable session (nodeId r) v)"
proof (induction n session rootId and n session refs acc arbitrary: vs and vs
    rule: findVariables_findVariables_loop.induct)
  case (1 session rootId)
  then show ?case by simp
next
  case (2 n session rootId)
  from "2.prems"(1) obtain refs where b: "browse session rootId = Inr refs"
    and l: "findVariables_loop n session refs [] = Some (Inr vs)"
    by (cases "browse session rootId") simp_all
  from "2.IH" [OF b l "2.prems"(2)] b show ?case
    by (auto intro: reachableVariable.intros)
next
  case (3 n session acc)
  then show ?case by simp
next
  case (4 n session childNode rest acc)
  let ?sub = "if nodeClass childNode = Object
      then findVariables n session (nodeId childNode)
      else if nodeClass childNode = Variable then Some (Inr [nodeId childNode])
      else Some (Inr [])"
  from "4.prems"(1) obtain cv where cv: "?sub = Some (Inr cv)"
    and rest: "findVariables_loop n session rest (pushNew acc cv) = Some (Inr vs)"
    by (cases ?sub) (auto split: sum.splits)
  from "4.IH"(2) [OF cv refl rest "4.prems"(2)]
  consider "v \<in> set acc" | "v \<in> set cv"
    | "\<exists>r \<in> set rest. nodeClass r = Variable \<and> v = nodeId r"
    | "\<exists>r \<in> set rest. nodeClass r = Object \<and> reachableVariable session (nodeId r) v"
    by (auto simp add: set_pushNew)
  then show ?case
  proof cases
    case 2
    show ?thesis
    proof (cases "nodeClass childNode = Object")
      case True
      with cv have "findVariables n session (nodeId childNode) = Some (Inr cv)" by simp
      from "4.IH"(1) [OF True this 2] True show ?thesis by auto
    next
      case False
      with cv 2 show ?thesis by (auto split: if_splits)
    qed
  qed auto
qed


lemma findVariables_set:
  assumes "findVariables n session rootId = Some (Inr vs)"
  shows "set vs = {v. reachableVariable session rootId v}"
  using findVariables_sound(1) [OF assms] findVariables_complete [OF _ assms] by blast



text \<open>
  C9. Discovery is deterministic: two runs from the same root against sessions that
  answer every \<open>browse\<close> alike return the same result (the same list, or the same
  exception), whatever else differs between the sessions and however deep the runs
  were allowed to go.
\<close>

theorem findVariables_deterministic:
  assumes "\<forall>node. browse s1 node = browse s2 node"
    and "findVariables n s1 rootId = Some r1"
    and "findVariables m s2 rootId = Some r2"
  shows "r1 = r2"
proof -
  have "findVariables (max n m) s1 rootId = Some r1"
    using assms(2) by (rule findVariables_fuel_mono(1)) simp
  moreover have "findVariables (max n m) s2 rootId = Some r2"
    using assms(3) by (rule findVariables_fuel_mono(1)) simp
  moreover have "findVariables (max n m) s1 rootId = findVariables (max n m) s2 rootId"
    using assms(1) by (rule findVariables_browse_cong(1))
  ultimately show ?thesis by simp
qed

theorem findVariables_deterministic_witness:
  "(\<forall>node. browse exampleSession node
      = browse (exampleSession\<lparr>readVariableValue := \<lambda>node. Inl TypeError\<rparr>) node)
   \<and> findVariables (Suc (Suc 0)) exampleSession ''RootFolder'' =
       Some (Inr [''ns=1;i=1'', ''ns=1;i=2'', ''ns=1;i=4'', ''ns=1;i=3'', ''ns=1;i=5'',
                  ''ns=1;i=6'', ''ns=1;i=7''])
   \<and> findVariables (Suc (Suc (Suc 0)))
         (exampleSession\<lparr>readVariableValue := \<lambda>node. Inl TypeError\<rparr>) ''RootFolder'' =
       Some (Inr [''ns=1;i=1'', ''ns=1;i=2'', ''ns=1;i=4'', ''ns=1;i=3'', ''ns=1;i=5'',
                  ''ns=1;i=6'', ''ns=1;i=7''])"
proof -
  let ?s2 = "exampleSession\<lparr>readVariableValue := \<lambda>node. Inl TypeError\<rparr>"
  have same: "\<forall>node. browse exampleSession node = browse ?s2 node" by simp
  have "findVariables (Suc (Suc (Suc 0))) exampleSession ''RootFolder''
      = Some (Inr [''ns=1;i=1'', ''ns=1;i=2'', ''ns=1;i=4'', ''ns=1;i=3'', ''ns=1;i=5'',
                  ''ns=1;i=6'', ''ns=1;i=7''])"
    using example_walk by (rule findVariables_fuel_mono(1)) simp
  then have deep: "findVariables (Suc (Suc (Suc 0))) ?s2 ''RootFolder''
      = Some (Inr [''ns=1;i=1'', ''ns=1;i=2'', ''ns=1;i=4'', ''ns=1;i=3'', ''ns=1;i=5'',
                  ''ns=1;i=6'', ''ns=1;i=7''])"
    using findVariables_browse_cong(1) [OF same] by simp
  from findVariables_deterministic [OF same example_walk deep] same example_walk deep
  show ?thesis by simp
qed

subsection \<open>Type resolution\<close>

lemma js_switch_absent: "x \<notin> fst ` set arms \<Longrightarrow> js_switch x arms current = current"
  by (induction arms) auto

lemma coerceArms_labels: "fst ` set coerceArms = fst ` set nameArms"
  by (simp add: coerceArms_def nameArms_def insert_commute)

lemma unmapped_tags:
  "dt \<notin> fst ` set nameArms \<longleftrightarrow>
     dt \<in> {Null, Int64, UInt64, DateTime, Guid, ByteString, XmlElement, NodeId,
            ExpandedNodeId, StatusCode, QualifiedName, ExtensionObject, DataValue,
            Variant, DiagnosticInfo}"
  by (cases dt) (simp_all add: nameArms_def)

text \<open>
  C5. For a native type tag that is not a label of the lookup table (the tags listed
  in \<open>unmapped_tags\<close>), \<open>getVariableType\<close> returns the name \<open>String\<close> and the
  identity as coercion: \<open>coerce(v) = v\<close> for every \<open>v\<close>.
\<close>

theorem getVariableType_unmapped:
  assumes "getBuiltInDataType session node = Inr dt"
    and "dt \<notin> fst ` set nameArms"
  shows "getVariableType session node = Inr \<lparr>name = ''String'', coerce = (\<lambda>val. Normal val)\<rparr>"
  using assms by (simp add: getVariableType_def js_switch_absent coerceArms_labels)

theorem getVariableType_unmapped_witness:
  "getBuiltInDataType exampleSession ''ns=1;i=7'' = Inr DateTime
   \<and> DateTime \<notin> fst ` set nameArms
   \<and> getVariableType exampleSession ''ns=1;i=7''
       = Inr \<lparr>name = ''String'', coerce = (\<lambda>val. Normal val)\<rparr>"
proof -
  have t: "getBuiltInDataType exampleSession ''ns=1;i=7'' = Inr DateTime"
    by (simp add: exampleSession_def exampleType_def)
  have u: "DateTime \<notin> fst ` set nameArms"
    by (simp add: nameArms_def)
  from getVariableType_unmapped [OF t u] t u show ?thesis by simp
qed

text \<open>The last arm of the name table never decides the result.\<close>

lemma name_switch_butlast:
  "js_switch dt nameArms current = js_switch dt (butlast nameArms) current"
  by (cases dt) (simp_all add: nameArms_def)

lemma name_switch_never_UInt64: "js_switch dt nameArms ''String'' \<noteq> ''UInt64''"
  by (cases dt) (simp_all add: nameArms_def)

text \<open>
  C6. The name table has two arms labelled \<open>UInt32\<close>; the second one, which would
  assign \<open>UInt64\<close>, is the last arm of the table and is never taken: the switch gives
  the same result without it, no tag is named \<open>UInt64\<close>, and a variable of native
  type \<open>UInt32\<close> gets the name \<open>UInt32\<close>.
\<close>

theorem getVariableType_UInt32:
  assumes "getBuiltInDataType session node = Inr UInt32"
  shows "getVariableType session node = Inr \<lparr>name = ''UInt32'', coerce = coerceNumber\<rparr>
    \<and> filter (\<lambda>arm. fst arm = UInt32) nameArms = [(UInt32, ''UInt32''), (UInt32, ''UInt64'')]
    \<and> last nameArms = (UInt32, ''UInt64'')
    \<and> (\<forall>dt current. js_switch dt nameArms current = js_switch dt (butlast nameArms) current)
    \<and> (\<forall>dt. js_switch dt nameArms ''String'' \<noteq> ''UInt64'')"
proof -
  have "getVariableType session node = Inr \<lparr>name = ''UInt32'', coerce = coerceNumber\<rparr>"
    using assms by (simp add: getVariableType_def nameArms_def coerceArms_def)
  moreover have "filter (\<lambda>arm. fst arm = UInt32) nameArms
      = [(UInt32, ''UInt32''), (UInt32, ''UInt64'')]"
    by (simp add: nameArms_def)
  moreover have "last nameArms = (UInt32, ''UInt64'')"
    by (simp add: nameArms_def)
  ultimately show ?thesis
    using name_switch_butlast name_switch_never_UInt64 by blast
qed

theorem getVariableType_UInt32_witness:
  "getBuiltInDataType exampleSession ''ns=1;i=3'' = Inr UInt32
   \<and> getVariableType exampleSession ''ns=1;i=3''
       = Inr \<lparr>name = ''UInt32'', coerce = coerceNumber\<rparr>"
proof -
  have t: "getBuiltInDataType exampleSession ''ns=1;i=3'' = Inr UInt32"
    by (simp add: exampleSession_def exampleType_def)
  from getVariableType_UInt32 [OF t] t show ?thesis by simp
qed

lemma coerceBoolean_true: "coerceBoolean (JStr ''true'') = Normal (JBool True)"
  by (simp add: coerceBoolean_def)

lemma coerceNumber_42: "coerceNumber (JStr ''42'') = Normal (JNum 42)"
  by (simp add: coerceNumber_def js_StringToNumber_def trim_def isWhiteSpace_def
      digitValue_def maxExact_def)

lemma coerceString_7: "coerceString (JNum 7) = Normal (JStr ''7'')"
  by (simp add: coerceString_def showInt_def digitChar_def maxExact_def)

text \<open>
  C7. The examples of coercion: for a variable of type Boolean, \<open>coerce("true")\<close> is
  the boolean \<open>true\<close>; for a variable of one of the integer types of the table,
  \<open>coerce("42")\<close> is the number 42; for a variable of type String or LocalizedText,
  \<open>coerce(7)\<close> is the string \<open>"7"\<close>.
\<close>

theorem coerce_examples:
  assumes "getBuiltInDataType session b = Inr Boolean"
    and "getBuiltInDataType session i = Inr dt"
    and "dt \<in> {Byte, SByte, Int16, UInt16, Int32, UInt32}"
    and "getBuiltInDataType session t = Inr dt'"
    and "dt' \<in> {String, LocalizedText}"
  shows "(\<exists>d. getVariableType session b = Inr d
            \<and> coerce d (JStr ''true'') = Normal (JBool True))
    \<and> (\<exists>d. getVariableType session i = Inr d
            \<and> coerce d (JStr ''42'') = Normal (JNum 42))
    \<and> (\<exists>d. getVariableType session t = Inr d
            \<and> coerce d (JNum 7) = Normal (JStr ''7''))"
proof -
  have "\<exists>d. getVariableType session b = Inr d
      \<and> coerce d (JStr ''true'') = Normal (JBool True)"
    using assms(1) by (simp add: getVariableType_def coerceArms_def coerceBoolean_true)
  moreover have "\<exists>d. getVariableType session i = Inr d
      \<and> coerce d (JStr ''42'') = Normal (JNum 42)"
    using assms(2,3) by (auto simp add: getVariableType_def coerceArms_def coerceNumber_42)
  moreover have "\<exists>d. getVariableType session t = Inr d
      \<and> coerce d (JNum 7) = Normal (JStr ''7'')"
    using assms(4,5) by (auto simp add: getVariableType_def coerceArms_def coerceString_7)
  ultimately show ?thesis by blast
qed

theorem coerce_examples_witness:
  "getBuiltInDataType exampleSession ''ns=1;i=4'' = Inr Boolean
   \<and> getBuiltInDataType exampleSession ''ns=1;i=1'' = Inr Int32
   \<and> getBuiltInDataType exampleSession ''ns=1;i=6'' = Inr LocalizedText
   \<and> (\<exists>d. getVariableType exampleSession ''ns=1;i=4'' = Inr d
            \<and> coerce d (JStr ''true'') = Normal (JBool True))
   \<and> (\<exists>d. getVariableType exampleSession ''ns=1;i=1'' = Inr d
            \<and> coerce d (JStr ''42'') = Normal (JNum 42))
   \<and> (\<exists>d. getVariableType exampleSession ''ns=1;i=6'' = Inr d
            \<and> coerce d (JNum 7) = Normal (JStr ''7''))"
proof -
  have b: "getBuiltInDataType exampleSession ''ns=1;i=4'' = Inr Boolean"
    and i: "getBuiltInDataType exampleSession ''ns=1;i=1'' = Inr Int32"
    and t: "getBuiltInDataType exampleSession ''ns=1;i=6'' = Inr LocalizedText"
    by (simp_all add: exampleSession_def exampleType_def)
  have "Int32 \<in> {Byte, SByte, Int16, UInt16, Int32, UInt32}"
    and "LocalizedText \<in> {String, LocalizedText}"
    by simp_all
  from coerce_examples [OF b i this(1) t this(2)] b i t show ?thesis by blast
qed
subsection \<open>Startup\<close>

lemma js_set_own:
  "own obj ''__proto__'' = None \<Longrightarrow>
     own (js_set obj k d) = (if k = ''__proto__'' then own obj else (own obj)(k \<mapsto> d))"
  by (simp add: js_set_def)

lemma js_set_proto:
  "own obj ''__proto__'' = None \<Longrightarrow>
     proto (js_set obj k d) = (if k = ''__proto__'' then Some d else proto obj)"
  by (simp add: js_set_def)

lemma resolveTypes_result:
  assumes "resolveTypes session ids (vt, qs) = Inr (vt', qs')"
    and "own vt ''__proto__'' = None"
  shows "qs' = qs @ ids
    \<and> (\<forall>i \<in> set ids. descriptorOf session i \<noteq> None)
    \<and> (\<forall>k. own vt' k = (if k \<in> set ids \<and> k \<noteq> ''__proto__'' then descriptorOf session k
                          else own vt k))
    \<and> proto vt' = (if ''__proto__'' \<in> set ids then descriptorOf session ''__proto__''
                   else proto vt)"
  using assms
proof (induction ids arbitrary: vt qs)
  case Nil
  then show ?case by simp
next
  case (Cons i ids)
  from Cons.prems(1) obtain d where d: "getVariableType session i = Inr d"
    by (cases "getVariableType session i") simp_all
  with Cons.prems(1)
  have rest: "resolveTypes session ids (js_set vt i d, qs @ [i]) = Inr (vt', qs')" by simp
  have inv: "own (js_set vt i d) ''__proto__'' = None"
    using Cons.prems(2) by (simp add: js_set_own)
  have di: "descriptorOf session i = Some d" using d by (simp add: descriptorOf_def)
  from Cons.IH [OF rest inv] di Cons.prems(2) show ?case
    by (auto simp add: js_set_own js_set_proto)
qed

lemma resolveTypes_total:
  "\<forall>i \<in> set ids. descriptorOf session i \<noteq> None \<Longrightarrow> \<exists>r. resolveTypes session ids st = Inr r"
proof (induction ids arbitrary: st)
  case Nil
  then show ?case by simp
next
  case (Cons i ids)
  obtain vt qs where st: "st = (vt, qs)" by (cases st)
  from Cons.prems obtain d where "getVariableType session i = Inr d"
    by (cases "getVariableType session i") (auto simp add: descriptorOf_def)
  with Cons st show ?case by simp
qed

lemma startup_index:
  assumes "main_startup fuel session = Some (Inr idx)"
  shows "findVariables fuel session ''RootFolder'' = Some (Inr (variables idx))"
    and "typeQueries idx = variables idx"
    and "\<forall>i \<in> set (variables idx). descriptorOf session i \<noteq> None"
    and "own (variableTypes idx) k
          = (if k \<in> set (variables idx) \<and> k \<noteq> ''__proto__'' then descriptorOf session k
             else None)"
    and "proto (variableTypes idx)
          = (if ''__proto__'' \<in> set (variables idx) then descriptorOf session ''__proto__''
             else None)"
proof -
  from assms obtain vs vt qs where
    walk: "findVariables fuel session ''RootFolder'' = Some (Inr vs)"
    and res: "resolveTypes session vs (emptyObject, []) = Inr (vt, qs)"
    and idx: "idx = \<lparr>variables = vs, variableTypes = vt, typeQueries = qs\<rparr>"
    by (auto simp add: main_startup_def split: option.splits sum.splits)
  have "own emptyObject ''__proto__'' = None" by (simp add: emptyObject_def)
  from resolveTypes_result [OF res this] have
    r: "qs = vs" "\<forall>i \<in> set vs. descriptorOf session i \<noteq> None"
      "\<And>k. own vt k = (if k \<in> set vs \<and> k \<noteq> ''__proto__'' then descriptorOf session k
                       else None)"
      "proto vt = (if ''__proto__'' \<in> set vs then descriptorOf session ''__proto__'' else None)"
    by (simp_all add: emptyObject_def)
  show "findVariables fuel session ''RootFolder'' = Some (Inr (variables idx))"
    using walk idx by simp
  show "typeQueries idx = variables idx" using r(1) idx by simp
  show "\<forall>i \<in> set (variables idx). descriptorOf session i \<noteq> None" using r(2) idx by simp
  show "own (variableTypes idx) k
      = (if k \<in> set (variables idx) \<and> k \<noteq> ''__proto__'' then descriptorOf session k else None)"
    using r(3) idx by simp
  show "proto (variableTypes idx)
      = (if ''__proto__'' \<in> set (variables idx) then descriptorOf session ''__proto__''
         else None)"
    using r(4) idx by simp
qed

lemma startup_lookup:
  assumes "main_startup fuel session = Some (Inr idx)"
    and "i \<in> set (variables idx)"
  shows "\<exists>d. getVariableType session i = Inr d \<and> js_get (variableTypes idx) i = Descriptor d"
proof -
  from startup_index(3) [OF assms(1)] assms(2)
  obtain d where d: "descriptorOf session i = Some d" by auto
  then have g: "getVariableType session i = Inr d"
    by (simp add: descriptorOf_def split: sum.splits)
  have "js_get (variableTypes idx) i = Descriptor d"
    using startup_index(4) [OF assms(1), of i] startup_index(5) [OF assms(1)] assms(2) d
    by (cases "i = ''__proto__''") (simp_all add: js_get_def)
  with g show ?thesis by blast
qed

text \<open>Startup against the example server.\<close>

lemma example_descriptors:
  "descriptorOf exampleSession ''ns=1;i=1'' = Some \<lparr>name = ''Int32'', coerce = coerceNumber\<rparr>"
  "descriptorOf exampleSession ''ns=1;i=2'' = Some \<lparr>name = ''Int16'', coerce = coerceNumber\<rparr>"
  "descriptorOf exampleSession ''ns=1;i=3'' = Some \<lparr>name = ''UInt32'', coerce = coerceNumber\<rparr>"
  "descriptorOf exampleSession ''ns=1;i=4'' = Some \<lparr>name = ''Boolean'', coerce = coerceBoolean\<rparr>"
  "descriptorOf exampleSession ''ns=1;i=5'' = Some \<lparr>name = ''String'', coerce = coerceString\<rparr>"
  "descriptorOf exampleSession ''ns=1;i=6''
     = Some \<lparr>name = ''LocalizedText'', coerce = coerceString\<rparr>"
  "descriptorOf exampleSession ''ns=1;i=7''
     = Some \<lparr>name = ''String'', coerce = (\<lambda>val. Normal val)\<rparr>"
  by (simp_all add: descriptorOf_def getVariableType_def exampleSession_def exampleType_def
      nameArms_def coerceArms_def)

lemma example_startup: "main_startup (Suc (Suc 0)) exampleSession = Some (Inr exampleIndex)"
proof -
  let ?vs = "[''ns=1;i=1'', ''ns=1;i=2'', ''ns=1;i=4'', ''ns=1;i=3'', ''ns=1;i=5'',
              ''ns=1;i=6'', ''ns=1;i=7'']"
  have "\<forall>i \<in> set ?vs. descriptorOf exampleSession i \<noteq> None"
    by (simp add: example_descriptors)
  then obtain r where "resolveTypes exampleSession ?vs (emptyObject, []) = Inr r"
    using resolveTypes_total by blast
  then obtain vt qs where r: "resolveTypes exampleSession ?vs (emptyObject, []) = Inr (vt, qs)"
    by (cases r) simp
  have "main_startup (Suc (Suc 0)) exampleSession
      = Some (Inr \<lparr>variables = ?vs, variableTypes = vt, typeQueries = qs\<rparr>)"
    by (simp only: main_startup_def example_walk r option.case sum.case prod.case)
  then show ?thesis by (simp add: exampleIndex_def)
qed

lemma example_variables:
  "variables exampleIndex = [''ns=1;i=1'', ''ns=1;i=2'', ''ns=1;i=4'', ''ns=1;i=3'',
     ''ns=1;i=5'', ''ns=1;i=6'', ''ns=1;i=7'']"
  using startup_index(1) [OF example_startup] example_walk by simp

lemma example_own:
  "own (variableTypes exampleIndex) k
     = (if k \<in> set (variables exampleIndex) then descriptorOf exampleSession k else None)"
  using startup_index(4) [OF example_startup, of k] by (auto simp add: example_variables)

lemma example_proto: "proto (variableTypes exampleIndex) = None"
  using startup_index(5) [OF example_startup] by (simp add: example_variables)

text \<open>
  C8. When startup completes, the type of every discovered id was queried exactly once
  (the queries are the discovered ids, in order and without repetition), reading
  \<open>variableTypes[id]\<close> for a discovered id gives the descriptor resolved for it, and
  the keys of \<open>variableTypes\<close> are the discovered ids. (The one string that assignment
  does not store as a key is \<open>__proto__\<close>; reading it gives the descriptor all the
  same.)
\<close>

theorem type_index_covers_variables:
  assumes "main_startup fuel session = Some (Inr idx)"
  shows "typeQueries idx = variables idx
    \<and> distinct (typeQueries idx)
    \<and> (\<forall>i \<in> set (variables idx).
          \<exists>d. getVariableType session i = Inr d \<and> js_get (variableTypes idx) i = Descriptor d)
    \<and> (\<forall>k. k \<noteq> ''__proto__'' \<longrightarrow>
          (k \<in> dom (own (variableTypes idx))) = (k \<in> set (variables idx)))"
proof -
  have q: "typeQueries idx = variables idx" by (rule startup_index(2) [OF assms])
  have "distinct (variables idx)"
    using startup_index(1) [OF assms] by (rule findVariables_loop_distinct(1))
  moreover have "\<forall>i \<in> set (variables idx).
      \<exists>d. getVariableType session i = Inr d \<and> js_get (variableTypes idx) i = Descriptor d"
    using startup_lookup [OF assms] by blast
  moreover have "\<forall>k. k \<noteq> ''__proto__'' \<longrightarrow>
      (k \<in> dom (own (variableTypes idx))) = (k \<in> set (variables idx))"
    using startup_index(3) [OF assms]
    by (auto simp add: startup_index(4) [OF assms] split: if_splits)
  ultimately show ?thesis using q by simp
qed

theorem type_index_covers_variables_witness:
  "main_startup (Suc (Suc 0)) exampleSession = Some (Inr exampleIndex)
   \<and> variables exampleIndex = [''ns=1;i=1'', ''ns=1;i=2'', ''ns=1;i=4'', ''ns=1;i=3'',
        ''ns=1;i=5'', ''ns=1;i=6'', ''ns=1;i=7'']
   \<and> typeQueries exampleIndex = [''ns=1;i=1'', ''ns=1;i=2'', ''ns=1;i=4'', ''ns=1;i=3'',
        ''ns=1;i=5'', ''ns=1;i=6'', ''ns=1;i=7'']
   \<and> js_get (variableTypes exampleIndex) ''ns=1;i=4''
       = Descriptor \<lparr>name = ''Boolean'', coerce = coerceBoolean\<rparr>
   \<and> ''ns=1;i=4'' \<in> dom (own (variableTypes exampleIndex))
   \<and> ''ns=1;s=A'' \<notin> dom (own (variableTypes exampleIndex))"
proof -
  note t = type_index_covers_variables [OF example_startup]
  have g: "getVariableType exampleSession ''ns=1;i=4''
      = Inr \<lparr>name = ''Boolean'', coerce = coerceBoolean\<rparr>"
    using example_descriptors(4) by (simp add: descriptorOf_def split: sum.splits)
  have m: "''ns=1;i=4'' \<in> set (variables exampleIndex)"
    "''ns=1;s=A'' \<notin> set (variables exampleIndex)"
    by (simp_all add: example_variables)
  from t m(1) g have "js_get (variableTypes exampleIndex) ''ns=1;i=4''
      = Descriptor \<lparr>name = ''Boolean'', coerce = coerceBoolean\<rparr>"
    by auto
  moreover from t m have "''ns=1;i=4'' \<in> dom (own (variableTypes exampleIndex))"
    "''ns=1;s=A'' \<notin> dom (own (variableTypes exampleIndex))"
    by simp_all
  moreover from t have "typeQueries exampleIndex = variables exampleIndex" by simp
  ultimately show ?thesis using example_startup example_variables by simp
qed

subsection \<open>The request handlers\<close>

lemma js_get_own: "own types ident = Some type \<Longrightarrow> js_get types ident = Descriptor type"
  by (simp add: js_get_def)

text \<open>
  Reading a member of \<open>Object.prototype\<close> from the index gives a value that counts as
  true, whatever the index holds; for every other id, and an index whose prototype was
  not replaced, \<open>GET\<close> answers 404 exactly when the id is not a key.
\<close>

lemma js_get_inherited:
  "k \<in> set objectPrototypeKeys \<Longrightarrow> truthy (js_get types k)"
  by (auto simp add: js_get_def objectPrototypeKeys_def split: option.splits)

lemma get_handler_404:
  "fst (get_handler types session ident) = Responded (SendStatus 404)
     \<longleftrightarrow> \<not> truthy (js_get types ident)"
  by (simp add: get_handler_def split: sum.splits completion.splits)

lemma get_handler_404_iff_key:
  assumes "proto types = None" and "ident \<notin> set objectPrototypeKeys"
  shows "fst (get_handler types session ident) = Responded (SendStatus 404)
     \<longleftrightarrow> ident \<notin> dom (own types)"
  using assms by (auto simp add: get_handler_404 js_get_def split: option.splits)

text \<open>
  \<open>GET\<close> for a key: the read is made, its exception is answered with 500, and its
  value with 200. Every \<open>GET\<close> sends a response.
\<close>

lemma get_handler_known:
  assumes "own types ident = Some type"
  shows "get_handler types session ident =
     (case readVariableValue session ident of
        Inr raw \<Rightarrow>
          (case js_String raw of
             Throw e \<Rightarrow> (RespondedThenUncaught (Json raw) HeadersSent, [ReadCall ident])
           | _ \<Rightarrow> (Responded (Json raw), [ReadCall ident]))
      | Inl e \<Rightarrow> (Responded (StatusSend 500 (ErrorDetail e)), [ReadCall ident]))"
  using assms by (simp add: get_handler_def js_get_own)

lemma get_handler_read_failure:
  assumes "own types ident = Some type" and "readVariableValue session ident = Inl e"
  shows "get_handler types session ident =
     (Responded (StatusSend 500 (ErrorDetail e)), [ReadCall ident])"
  using assms by (simp add: get_handler_known)

lemma get_handler_responds:
  "\<exists>r. (fst (get_handler types session ident) = Responded r
         \<or> fst (get_handler types session ident) = RespondedThenUncaught r HeadersSent)
       \<and> statusCode r \<in> {200, 404, 500}"
  by (simp add: get_handler_def split: sum.splits completion.splits)

text \<open>
  The conversions throw for no body but an object or an array (one that holds, at some
  depth, an object with a key \<open>toString\<close>), and where \<open>Number\<close> throws, \<open>String\<close>
  throws too.
\<close>

lemma js_StringToNumber_no_throw: "js_StringToNumber s \<noteq> Throw e"
  by (simp add: js_StringToNumber_def Let_def split: option.splits)

lemma conversions_of_primitives:
  assumes "\<forall>xs. raw \<noteq> JArr xs" and "\<forall>ps. raw \<noteq> JObj ps"
  shows "js_String raw \<noteq> Throw e" and "js_Number raw \<noteq> Throw e"
  using assms by (cases raw; simp add: js_StringToNumber_no_throw)+

lemma js_Number_throws: "js_Number raw = Throw e \<Longrightarrow> js_String raw = Throw e"
  by (cases raw) (auto simp add: js_StringToNumber_no_throw split: completion.splits if_splits)

text \<open>
  \<open>PUT\<close>: a body whose string conversion throws ends the handler at its first line.
  For an id with a descriptor and a body whose conversions return, the handler makes
  the typed write of the coerced body and maps the status that the write returns; an
  exception of the write leaves the handler.
\<close>

lemma put_handler_log_throws:
  "js_String raw = Throw e \<Longrightarrow> put_handler types session ident raw = (Uncaught e, [])"
  by (simp add: put_handler_def)

lemma put_handler_known:
  assumes "js_get types ident = Descriptor type"
    and "\<forall>e. js_String raw \<noteq> Throw e"
    and "\<forall>e. coerce type raw \<noteq> Throw e"
  shows "put_handler types session ident raw =
     (case session_write session
             \<lparr>w_nodeId = ident, w_attributeId = AttributeIds_Value,
              w_dataType = name type, w_value = coerce type raw\<rparr> of
        Inl e \<Rightarrow>
          (Uncaught e,
           [WriteCall \<lparr>w_nodeId = ident, w_attributeId = AttributeIds_Value,
              w_dataType = name type, w_value = coerce type raw\<rparr>])
      | Inr st \<Rightarrow>
          (Responded (if st_value st = 0 then SendStatus 204
                      else StatusSend 400 (Text (st_description st))),
           [WriteCall \<lparr>w_nodeId = ident, w_attributeId = AttributeIds_Value,
              w_dataType = name type, w_value = coerce type raw\<rparr>]))"
  using assms
  by (cases "js_String raw"; cases "coerce type raw")
     (simp_all add: put_handler_def Let_def split: sum.splits)

lemma put_handler_maps_status:
  assumes "own types ident = Some type"
    and "\<forall>e. js_String raw \<noteq> Throw e"
    and "\<forall>e. coerce type raw \<noteq> Throw e"
    and "session_write session \<lparr>w_nodeId = ident, w_attributeId = AttributeIds_Value,
           w_dataType = name type, w_value = coerce type raw\<rparr> = Inr st"
  shows "put_handler types session ident raw =
     (Responded (if st_value st = 0 then SendStatus 204
                 else StatusSend 400 (Text (st_description st))),
      [WriteCall \<lparr>w_nodeId = ident, w_attributeId = AttributeIds_Value,
         w_dataType = name type, w_value = coerce type raw\<rparr>])"
  using assms by (simp add: put_handler_known js_get_own)

lemma put_handler_write_throws:
  assumes "js_get types ident = Descriptor type"
    and "\<forall>e. js_String raw \<noteq> Throw e"
    and "\<forall>e. coerce type raw \<noteq> Throw e"
    and "session_write session \<lparr>w_nodeId = ident, w_attributeId = AttributeIds_Value,
           w_dataType = name type, w_value = coerce type raw\<rparr> = Inl e"
  shows "put_handler types session ident raw =
     (Uncaught e,
      [WriteCall \<lparr>w_nodeId = ident, w_attributeId = AttributeIds_Value,
         w_dataType = name type, w_value = coerce type raw\<rparr>])"
  using assms by (simp add: put_handler_known)

lemma put_handler_calls_Number:
  assumes "js_get types ident = Descriptor type" and "coerce type = coerceNumber"
  shows "snd (put_handler types session ident raw) =
     (case js_String raw of
        Throw e \<Rightarrow> []
      | _ \<Rightarrow> [WriteCall \<lparr>w_nodeId = ident, w_attributeId = AttributeIds_Value,
                 w_dataType = name type, w_value = js_Number raw\<rparr>])"
proof (cases "\<exists>e. js_String raw = Throw e")
  case True
  then show ?thesis by (auto simp add: put_handler_log_throws)
next
  case False
  then have log: "\<forall>e. js_String raw \<noteq> Throw e" by simp
  then have "\<forall>e. coerce type raw \<noteq> Throw e"
    using assms(2) js_Number_throws by (auto simp add: coerceNumber_def)
  from put_handler_known [OF assms(1) log this, of session] log assms(2) show ?thesis
    by (cases "js_String raw") (auto simp add: coerceNumber_def split: sum.splits)
qed

lemma js_String_123: "js_String (JNum 123) = Normal ''123''"
  by (simp add: showInt_def digitChar_def maxExact_def)

lemma js_Number_fraction: "js_Number (JStr ''1.5'') = Unmodelled"
  by (simp add: js_StringToNumber_def trim_def isWhiteSpace_def digitValue_def)


text \<open>
  A coercion that \<open>getVariableType\<close> chose throws only where the first line of
  \<open>PUT\<close> has thrown already. So after startup, for a discovered id and a body whose
  string conversion returns, \<open>PUT\<close> makes its write and maps the status returned.
\<close>

lemma resolved_coerce_throws:
  assumes "getVariableType session node = Inr d" and "coerce d raw = Throw e"
  shows "js_String raw = Throw e"
proof -
  from assms(1) obtain dt where "getBuiltInDataType session node = Inr dt"
    and d: "d = \<lparr>name = js_switch dt nameArms ''String'',
                  coerce = js_switch dt coerceArms (\<lambda>val. Normal val)\<rparr>"
    by (cases "getBuiltInDataType session node") (auto simp add: getVariableType_def)
  have "coerce d = coerceBoolean \<or> coerce d = coerceNumber \<or> coerce d = coerceString
      \<or> coerce d = (\<lambda>val. Normal val)"
    unfolding d by (cases dt) (simp_all add: coerceArms_def)
  with assms(2) show ?thesis
    by (auto simp add: coerceBoolean_def coerceNumber_def coerceString_def
        dest: js_Number_throws split: completion.splits)
qed

lemma put_after_startup:
  assumes "main_startup fuel session = Some (Inr idx)"
    and "node \<in> set (variables idx)"
    and "\<forall>e. js_String raw \<noteq> Throw e"
  shows "\<exists>d. getVariableType session node = Inr d
    \<and> put_handler (variableTypes idx) session' node raw =
       (case session_write session'
               \<lparr>w_nodeId = node, w_attributeId = AttributeIds_Value,
                w_dataType = name d, w_value = coerce d raw\<rparr> of
          Inl e \<Rightarrow>
            (Uncaught e,
             [WriteCall \<lparr>w_nodeId = node, w_attributeId = AttributeIds_Value,
                w_dataType = name d, w_value = coerce d raw\<rparr>])
        | Inr st \<Rightarrow>
            (Responded (if st_value st = 0 then SendStatus 204
                        else StatusSend 400 (Text (st_description st))),
             [WriteCall \<lparr>w_nodeId = node, w_attributeId = AttributeIds_Value,
                w_dataType = name d, w_value = coerce d raw\<rparr>]))"
proof -
  from startup_lookup [OF assms(1,2)] obtain d where
    d: "getVariableType session node = Inr d"
    and g: "js_get (variableTypes idx) node = Descriptor d"
    by blast
  have "\<forall>e. coerce d raw \<noteq> Throw e"
    using resolved_coerce_throws [OF d] assms(3) by blast
  from put_handler_known [OF g assms(3) this] d show ?thesis by blast
qed

text \<open>The handlers against the example server.\<close>

lemma example_keys:
  "own (variableTypes exampleIndex) ''ns=1;i=1'' = Some \<lparr>name = ''Int32'', coerce = coerceNumber\<rparr>"
  "own (variableTypes exampleIndex) ''ns=1;i=2'' = Some \<lparr>name = ''Int16'', coerce = coerceNumber\<rparr>"
  "own (variableTypes exampleIndex) ''ns=1;i=3'' = Some \<lparr>name = ''UInt32'', coerce = coerceNumber\<rparr>"
  "own (variableTypes exampleIndex) ''ns=1;i=4'' = Some \<lparr>name = ''Boolean'', coerce = coerceBoolean\<rparr>"
  by (simp_all add: example_own example_variables example_descriptors)

lemma put_examples:
  "put_handler (variableTypes exampleIndex) exampleSession ''ns=1;i=1'' (JNum 123) =
     (Responded (SendStatus 204),
      [WriteCall \<lparr>w_nodeId = ''ns=1;i=1'', w_attributeId = 13, w_dataType = ''Int32'',
         w_value = Normal (JNum 123)\<rparr>])"
  "put_handler (variableTypes exampleIndex) exampleSession ''ns=1;i=2'' (JNum 123) =
     (Responded (StatusSend 400 (Text ''BadTypeMismatch'')),
      [WriteCall \<lparr>w_nodeId = ''ns=1;i=2'', w_attributeId = 13, w_dataType = ''Int16'',
         w_value = Normal (JNum 123)\<rparr>])"
proof -
  have log: "\<forall>e. js_String (JNum 123) \<noteq> Throw e" by (simp add: js_String_123)
  have c: "\<forall>e. coerce \<lparr>name = ''Int32'', coerce = coerceNumber\<rparr> (JNum 123) \<noteq> Throw e"
    "\<forall>e. coerce \<lparr>name = ''Int16'', coerce = coerceNumber\<rparr> (JNum 123) \<noteq> Throw e"
    by (simp_all add: coerceNumber_def)
  show "put_handler (variableTypes exampleIndex) exampleSession ''ns=1;i=1'' (JNum 123) =
     (Responded (SendStatus 204),
      [WriteCall \<lparr>w_nodeId = ''ns=1;i=1'', w_attributeId = 13, w_dataType = ''Int32'',
         w_value = Normal (JNum 123)\<rparr>])"
    using put_handler_known [OF js_get_own [OF example_keys(1)] log c(1), of exampleSession]
    by (simp add: coerceNumber_def exampleSession_def exampleWrite_def AttributeIds_Value_def)
  show "put_handler (variableTypes exampleIndex) exampleSession ''ns=1;i=2'' (JNum 123) =
     (Responded (StatusSend 400 (Text ''BadTypeMismatch'')),
      [WriteCall \<lparr>w_nodeId = ''ns=1;i=2'', w_attributeId = 13, w_dataType = ''Int16'',
         w_value = Normal (JNum 123)\<rparr>])"
    using put_handler_known [OF js_get_own [OF example_keys(2)] log c(2), of exampleSession]
    by (simp add: coerceNumber_def exampleSession_def exampleWrite_def AttributeIds_Value_def)
qed

text \<open>
  C4. It is not for every \<open>PUT\<close> with a key id that the handler coerces the body,
  writes and maps the status. In the example \<open>ns=1;i=4\<close> is a key, of type Boolean,
  whose coercion of the body \<open>{"toString": 1}\<close> would be \<open>true\<close>; but the first line
  of the handler prints the body, the string conversion throws a TypeError, and the
  handler ends with no write and no response. With the body \<open>"true"\<close> the handler
  writes the boolean under the type name and answers the good status with 204.
\<close>

theorem put_log_line_exception_escapes:
  "own (variableTypes exampleIndex) ''ns=1;i=4''
     = Some \<lparr>name = ''Boolean'', coerce = coerceBoolean\<rparr>
   \<and> coerceBoolean (JObj [(''toString'', JNum 1)]) = Normal (JBool True)
   \<and> put_handler (variableTypes exampleIndex) exampleSession ''ns=1;i=4''
         (JObj [(''toString'', JNum 1)]) = (Uncaught TypeError, [])
   \<and> put_handler (variableTypes exampleIndex) exampleSession ''ns=1;i=4'' (JStr ''true'') =
       (Responded (SendStatus 204),
        [WriteCall \<lparr>w_nodeId = ''ns=1;i=4'', w_attributeId = 13, w_dataType = ''Boolean'',
           w_value = Normal (JBool True)\<rparr>])"
proof -
  have "put_handler (variableTypes exampleIndex) exampleSession ''ns=1;i=4''
      (JObj [(''toString'', JNum 1)]) = (Uncaught TypeError, [])"
    by (rule put_handler_log_throws) simp
  moreover have "put_handler (variableTypes exampleIndex) exampleSession ''ns=1;i=4''
      (JStr ''true'') =
       (Responded (SendStatus 204),
        [WriteCall \<lparr>w_nodeId = ''ns=1;i=4'', w_attributeId = 13, w_dataType = ''Boolean'',
           w_value = Normal (JBool True)\<rparr>])"
    using put_handler_known [OF js_get_own [OF example_keys(4)], of "JStr ''true''"
        exampleSession]
    by (simp add: coerceBoolean_def exampleSession_def exampleWrite_def
        AttributeIds_Value_def)
  ultimately show ?thesis using example_keys(4) by (simp add: coerceBoolean_def)
qed

text \<open>
  C10. A variable whose native type is \<open>UInt16\<close> gets the signed name \<open>Int16\<close>, and
  after startup the session calls of a \<open>PUT\<close> for that variable are known for every
  body and every later state of the server: none when the first line throws, and
  otherwise exactly one write, which carries \<open>dataType = Int16\<close> and \<open>Number(raw)\<close>.
\<close>

theorem put_sends_Int16_for_UInt16:
  assumes "main_startup fuel session = Some (Inr idx)"
    and "node \<in> set (variables idx)"
    and "getBuiltInDataType session node = Inr UInt16"
  shows "getVariableType session node = Inr \<lparr>name = ''Int16'', coerce = coerceNumber\<rparr>
    \<and> (\<forall>session' raw.
          snd (put_handler (variableTypes idx) session' node raw) =
            (case js_String raw of
               Throw e \<Rightarrow> []
             | _ \<Rightarrow> [WriteCall \<lparr>w_nodeId = node, w_attributeId = AttributeIds_Value,
                        w_dataType = ''Int16'', w_value = js_Number raw\<rparr>]))
    \<and> (\<forall>session' raw. \<forall>c \<in> set (snd (put_handler (variableTypes idx) session' node raw)).
          \<exists>v. c = WriteCall \<lparr>w_nodeId = node, w_attributeId = AttributeIds_Value,
                     w_dataType = ''Int16'', w_value = v\<rparr>)"
proof -
  have d: "getVariableType session node = Inr \<lparr>name = ''Int16'', coerce = coerceNumber\<rparr>"
    using assms(3) by (simp add: getVariableType_def nameArms_def coerceArms_def)
  with startup_lookup [OF assms(1,2)]
  have g: "js_get (variableTypes idx) node
      = Descriptor \<lparr>name = ''Int16'', coerce = coerceNumber\<rparr>"
    by auto
  have calls: "snd (put_handler (variableTypes idx) session' node raw) =
      (case js_String raw of
         Throw e \<Rightarrow> []
       | _ \<Rightarrow> [WriteCall \<lparr>w_nodeId = node, w_attributeId = AttributeIds_Value,
                  w_dataType = ''Int16'', w_value = js_Number raw\<rparr>])"
    for session' raw
    using put_handler_calls_Number [OF g, of session' raw]
    by (cases "js_String raw") simp_all
  have "\<exists>v. c = WriteCall \<lparr>w_nodeId = node, w_attributeId = AttributeIds_Value,
                     w_dataType = ''Int16'', w_value = v\<rparr>"
    if "c \<in> set (snd (put_handler (variableTypes idx) session' node raw))"
    for session' raw c
    using that by (cases "js_String raw") (auto simp add: calls)
  with d calls show ?thesis by blast
qed

theorem put_sends_Int16_for_UInt16_witness:
  "main_startup (Suc (Suc 0)) exampleSession = Some (Inr exampleIndex)
   \<and> ''ns=1;i=2'' \<in> set (variables exampleIndex)
   \<and> getBuiltInDataType exampleSession ''ns=1;i=2'' = Inr UInt16
   \<and> getVariableType exampleSession ''ns=1;i=2''
       = Inr \<lparr>name = ''Int16'', coerce = coerceNumber\<rparr>
   \<and> snd (put_handler (variableTypes exampleIndex) exampleSession ''ns=1;i=2'' (JNum 123)) =
        [WriteCall \<lparr>w_nodeId = ''ns=1;i=2'', w_attributeId = 13, w_dataType = ''Int16'',
           w_value = Normal (JNum 123)\<rparr>]
   \<and> snd (put_handler (variableTypes exampleIndex) exampleSession ''ns=1;i=2'' (JStr ''1.5'')) =
        [WriteCall \<lparr>w_nodeId = ''ns=1;i=2'', w_attributeId = 13, w_dataType = ''Int16'',
           w_value = Unmodelled\<rparr>]"
proof -
  have m: "''ns=1;i=2'' \<in> set (variables exampleIndex)" by (simp add: example_variables)
  have t: "getBuiltInDataType exampleSession ''ns=1;i=2'' = Inr UInt16"
    by (simp add: exampleSession_def exampleType_def)
  note p = put_sends_Int16_for_UInt16 [OF example_startup m t]
  from p have "snd (put_handler (variableTypes exampleIndex) exampleSession ''ns=1;i=2''
      (JNum 123)) =
        [WriteCall \<lparr>w_nodeId = ''ns=1;i=2'', w_attributeId = 13, w_dataType = ''Int16'',
           w_value = Normal (JNum 123)\<rparr>]"
    by (simp add: js_String_123 AttributeIds_Value_def)
  moreover from p have "snd (put_handler (variableTypes exampleIndex) exampleSession
      ''ns=1;i=2'' (JStr ''1.5'')) =
        [WriteCall \<lparr>w_nodeId = ''ns=1;i=2'', w_attributeId = 13, w_dataType = ''Int16'',
           w_value = Unmodelled\<rparr>]"
    by (simp add: js_Number_fraction AttributeIds_Value_def del: js_Number.simps)
  ultimately show ?thesis using p example_startup m t by simp
qed

text \<open>
  C3. A session error at request time is not always turned into a response. In the
  example, the write to \<open>ns=1;i=3\<close> throws: \<open>PUT\<close> has no \<open>try\<close> around
  \<open>session.write\<close>, and the exception leaves the handler. (\<open>GET\<close> catches the
  exception of a read and answers 500 with it.)
\<close>

theorem put_write_exception_escapes:
  "own (variableTypes exampleIndex) ''ns=1;i=3'' = Some \<lparr>name = ''UInt32'', coerce = coerceNumber\<rparr>
   \<and> put_handler (variableTypes exampleIndex) exampleSession ''ns=1;i=3'' (JNum 123) =
       (Uncaught (SessionError ''BadSessionClosed''),
        [WriteCall \<lparr>w_nodeId = ''ns=1;i=3'', w_attributeId = 13, w_dataType = ''UInt32'',
           w_value = Normal (JNum 123)\<rparr>])
   \<and> get_handler (variableTypes exampleIndex) exampleSession ''ns=1;i=2'' =
       (Responded (StatusSend 500 (ErrorDetail (SessionError ''BadTimeout''))),
        [ReadCall ''ns=1;i=2''])"
proof -
  have log: "\<forall>e. js_String (JNum 123) \<noteq> Throw e" by (simp add: js_String_123)
  have c: "\<forall>e. coerce \<lparr>name = ''UInt32'', coerce = coerceNumber\<rparr> (JNum 123) \<noteq> Throw e"
    by (simp add: coerceNumber_def)
  have "put_handler (variableTypes exampleIndex) exampleSession ''ns=1;i=3'' (JNum 123) =
       (Uncaught (SessionError ''BadSessionClosed''),
        [WriteCall \<lparr>w_nodeId = ''ns=1;i=3'', w_attributeId = 13, w_dataType = ''UInt32'',
           w_value = Normal (JNum 123)\<rparr>])"
    using put_handler_known [OF js_get_own [OF example_keys(3)] log c, of exampleSession]
    by (simp add: coerceNumber_def exampleSession_def exampleWrite_def
        AttributeIds_Value_def)
  moreover have "get_handler (variableTypes exampleIndex) exampleSession ''ns=1;i=2'' =
       (Responded (StatusSend 500 (ErrorDetail (SessionError ''BadTimeout''))),
        [ReadCall ''ns=1;i=2''])"
    by (rule get_handler_read_failure [OF example_keys(2)])
      (simp add: exampleSession_def exampleRead_def)
  ultimately show ?thesis using example_keys(3) by simp
qed

text \<open>
  C2. \<open>GET\<close> does not answer 404 for every id that is not a key of the type index.
  Whatever the index holds, \<open>GET /constructor\<close> is not answered with 404: in the
  example \<open>constructor\<close> is no discovered variable and no key, but
  \<open>variableTypes["constructor"]\<close> is the inherited \<open>Object\<close> function, so the handler
  goes on to read the variable from the session and answers with what the read gives
  (here 500). An id that is neither a key nor inherited gets 404.
\<close>

theorem get_inherited_key_is_not_404:
  "(\<forall>types session.
      fst (get_handler types session ''constructor'') \<noteq> Responded (SendStatus 404))
   \<and> ''constructor'' \<notin> set (variables exampleIndex)
   \<and> ''constructor'' \<notin> dom (own (variableTypes exampleIndex))
   \<and> get_handler (variableTypes exampleIndex) exampleSession ''constructor'' =
       (Responded (StatusSend 500 (ErrorDetail (SessionError ''BadNodeIdUnknown''))),
        [ReadCall ''constructor''])
   \<and> get_handler (variableTypes exampleIndex) exampleSession ''ns=1;i=99'' =
       (Responded (SendStatus 404), [])"
proof -
  have v: "''constructor'' \<notin> set (variables exampleIndex)"
    "''ns=1;i=99'' \<notin> set (variables exampleIndex)"
    by (simp_all add: example_variables)
  then have o: "own (variableTypes exampleIndex) ''constructor'' = None"
    "own (variableTypes exampleIndex) ''ns=1;i=99'' = None"
    by (simp_all add: example_own)
  have "get_handler (variableTypes exampleIndex) exampleSession ''constructor'' =
       (Responded (StatusSend 500 (ErrorDetail (SessionError ''BadNodeIdUnknown''))),
        [ReadCall ''constructor''])"
    by (simp add: get_handler_def js_get_def o example_proto objectPrototypeKeys_def
        exampleSession_def exampleRead_def)
  moreover have "get_handler (variableTypes exampleIndex) exampleSession ''ns=1;i=99'' =
       (Responded (SendStatus 404), [])"
    by (simp add: get_handler_def js_get_def o example_proto objectPrototypeKeys_def)
  moreover have "fst (get_handler types session ''constructor'') \<noteq> Responded (SendStatus 404)"
    for types session
    using js_get_inherited [of "''constructor''" types]
    by (simp add: get_handler_404 objectPrototypeKeys_def)
  ultimately show ?thesis using v o by (simp add: domIff)
qed

text \<open>
  The log line of \<open>GET\<close>: a value whose string conversion throws is sent with 200,
  and then an exception leaves the handler.
\<close>

lemma get_log_line_exception_escapes:
  assumes "own types ident = Some type"
    and "readVariableValue session ident = Inr (JObj [(''toString'', JNum 1)])"
  shows "get_handler types session ident =
     (RespondedThenUncaught (Json (JObj [(''toString'', JNum 1)])) HeadersSent,
      [ReadCall ident])"
  using assms by (simp add: get_handler_known)

end
